theory Spec2Isabelle
  imports Main
begin

section \<open>JavaScript strings and arrays\<close>

text \<open>
  A JavaScript string is modelled as a \<^typ>\<open>string\<close>.  The three string methods the provider
  and the reducer call are written out: \<open>String.prototype.endsWith\<close>,
  \<open>String.prototype.includes\<close> and \<open>String.prototype.toLowerCase\<close> (the latter on the
  letters \<open>A\<close> to \<open>Z\<close>, every other character is left as it is).
\<close>

definition endsWith :: "string \<Rightarrow> string \<Rightarrow> bool" where
  "endsWith s searchString =
     (length searchString \<le> length s \<and>
      drop (length s - length searchString) s = searchString)"

fun startsWith :: "string \<Rightarrow> string \<Rightarrow> bool" where
  "startsWith s [] = True"
| "startsWith [] (c # cs) = False"
| "startsWith (x # xs) (c # cs) = (x = c \<and> startsWith xs cs)"

fun includes' :: "string \<Rightarrow> string \<Rightarrow> bool" where
  "includes' [] searchString = (searchString = [])"
| "includes' (x # xs) searchString =
     (startsWith (x # xs) searchString \<or> includes' xs searchString)"

definition toLowerCaseChar :: "char \<Rightarrow> char" where
  "toLowerCaseChar c =
     (case map_of (zip ''ABCDEFGHIJKLMNOPQRSTUVWXYZ'' ''abcdefghijklmnopqrstuvwxyz'') c of
        None \<Rightarrow> c
      | Some l \<Rightarrow> l)"

definition toLowerCase :: "string \<Rightarrow> string" where
  "toLowerCase s = map toLowerCaseChar s"

text \<open>
  \<open>Array.prototype.slice(start, end)\<close>: a negative index counts from the end of the array,
  both indices are clamped to the array.
\<close>

definition slice :: "'a list \<Rightarrow> int \<Rightarrow> int \<Rightarrow> 'a list" where
  "slice xs start end' =
     (let n = int (length xs);
          k = (if start < 0 then max (n + start) 0 else min start n);
          final = (if end' < 0 then max (n + end') 0 else min end' n)
      in take (nat (final - k)) (drop (nat k) xs))"

text \<open>The operator \<open>a || b\<close> on a string that may be \<open>undefined\<close>: the empty string is falsy.\<close>

definition orElse :: "string option \<Rightarrow> string \<Rightarrow> string" where
  "orElse a b = (case a of None \<Rightarrow> b | Some s \<Rightarrow> if s = [] then b else s)"

section \<open>The data model (src/types.ts)\<close>

text \<open>
  The serial port, the transport wrapper and the programmer engine are objects of external
  libraries.  A port is known by its identity; a transport by the port and the tracing flag
  it was constructed with; an engine by the loader options it was constructed with.
\<close>

datatype SerialPort = SerialPort nat

datatype Transport = Transport SerialPort bool

datatype ESPLoader = ESPLoader Transport int int

datatype Reader = Reader SerialPort

text \<open>A thrown value \<open>e\<close>, read through \<open>e.message\<close> only; the property may be missing.\<close>

datatype JsError = JsError (message: "string option")

text \<open>The type \<open>Error | string\<close> of a state error.\<close>

datatype ErrorValue = ErrorObject JsError | ErrorString string

record FlashProgress =
  fileIndex :: int
  fileName :: string
  written :: int
  total' :: int

datatype DataBits = Bits7 | Bits8

datatype StopBits = Stop1 | Stop2

datatype Parity = ParityNone | ParityEven | ParityOdd

record ESPLoaderState =
  transport :: "Transport option"
  esploader :: "ESPLoader option"
  chip :: "string option"
  isConnected :: bool
  isConsoleConnected :: bool
  isLoading :: bool
  isFlashing :: bool
  isErasing :: bool
  error :: "ErrorValue option"
  terminalOutput :: "string list"
  flashProgress :: "FlashProgress option"
  baudrate :: int
  consoleBaudrate :: int
  consoleDataBits :: DataBits
  consoleStopBits :: StopBits
  consoleParity :: Parity
  debugLogging :: bool

section \<open>The reducer (src/context/esploaderReducer.ts)\<close>

definition initialESPLoaderState :: ESPLoaderState where
  "initialESPLoaderState =
     \<lparr> transport = None,
       esploader = None,
       chip = None,
       isConnected = False,
       isConsoleConnected = False,
       isLoading = False,
       isFlashing = False,
       isErasing = False,
       error = None,
       terminalOutput = [],
       flashProgress = None,
       baudrate = 115200,
       consoleBaudrate = 115200,
       consoleDataBits = Bits8,
       consoleStopBits = Stop1,
       consoleParity = ParityNone,
       debugLogging = False \<rparr>"

datatype Action =
    SET_TRANSPORT "Transport option"
  | SET_ESPLOADER "ESPLoader option"
  | SET_CHIP "string option"
  | SET_IS_CONNECTED bool
  | SET_IS_CONSOLE_CONNECTED bool
  | SET_IS_LOADING bool
  | SET_IS_FLASHING bool
  | SET_IS_ERASING bool
  | SET_ERROR "ErrorValue option"
  | ADD_TERMINAL_OUTPUT string
  | APPEND_TERMINAL_OUTPUT string
  | SET_TERMINAL_OUTPUT "string list"
  | CLEAR_TERMINAL_OUTPUT
  | SET_FLASH_PROGRESS "FlashProgress option"
  | SET_BAUDRATE int
  | SET_CONSOLE_BAUDRATE int
  | SET_CONSOLE_DATA_BITS DataBits
  | SET_CONSOLE_STOP_BITS StopBits
  | SET_CONSOLE_PARITY Parity
  | SET_DEBUG_LOGGING bool
  | RESET_STATE

fun esploaderReducer :: "ESPLoaderState \<Rightarrow> Action \<Rightarrow> ESPLoaderState" where
  "esploaderReducer state (SET_TRANSPORT payload) = state\<lparr>transport := payload\<rparr>"
| "esploaderReducer state (SET_ESPLOADER payload) = state\<lparr>esploader := payload\<rparr>"
| "esploaderReducer state (SET_CHIP payload) = state\<lparr>chip := payload\<rparr>"
| "esploaderReducer state (SET_IS_CONNECTED payload) =
     state\<lparr>isConnected := payload, isLoading := False, error := None\<rparr>"
| "esploaderReducer state (SET_IS_CONSOLE_CONNECTED payload) =
     state\<lparr>isConsoleConnected := payload, isLoading := False, error := None\<rparr>"
| "esploaderReducer state (SET_IS_LOADING payload) = state\<lparr>isLoading := payload\<rparr>"
| "esploaderReducer state (SET_IS_FLASHING payload) =
     state\<lparr>isFlashing := payload, error := None\<rparr>"
| "esploaderReducer state (SET_IS_ERASING payload) =
     state\<lparr>isErasing := payload, error := None\<rparr>"
| "esploaderReducer state (SET_ERROR payload) =
     state\<lparr>error := payload, isLoading := False, isFlashing := False, isErasing := False\<rparr>"
| "esploaderReducer state (ADD_TERMINAL_OUTPUT payload) =
     state\<lparr>terminalOutput := terminalOutput state @ [payload]\<rparr>"
| "esploaderReducer state (APPEND_TERMINAL_OUTPUT payload) =
     state\<lparr>terminalOutput :=
       (if length (terminalOutput state) > 0 \<and>
           \<not> endsWith (terminalOutput state ! (length (terminalOutput state) - 1)) ''\<newline>''
        then slice (terminalOutput state) 0 (- 1) @
               [terminalOutput state ! (length (terminalOutput state) - 1) @ payload]
        else terminalOutput state @ [payload])\<rparr>"
| "esploaderReducer state (SET_TERMINAL_OUTPUT payload) = state\<lparr>terminalOutput := payload\<rparr>"
| "esploaderReducer state CLEAR_TERMINAL_OUTPUT = state\<lparr>terminalOutput := []\<rparr>"
| "esploaderReducer state (SET_FLASH_PROGRESS payload) = state\<lparr>flashProgress := payload\<rparr>"
| "esploaderReducer state (SET_BAUDRATE payload) = state\<lparr>baudrate := payload\<rparr>"
| "esploaderReducer state (SET_CONSOLE_BAUDRATE payload) = state\<lparr>consoleBaudrate := payload\<rparr>"
| "esploaderReducer state (SET_CONSOLE_DATA_BITS payload) = state\<lparr>consoleDataBits := payload\<rparr>"
| "esploaderReducer state (SET_CONSOLE_STOP_BITS payload) = state\<lparr>consoleStopBits := payload\<rparr>"
| "esploaderReducer state (SET_CONSOLE_PARITY payload) = state\<lparr>consoleParity := payload\<rparr>"
| "esploaderReducer state (SET_DEBUG_LOGGING payload) = state\<lparr>debugLogging := payload\<rparr>"
| "esploaderReducer state RESET_STATE =
     initialESPLoaderState
       \<lparr> baudrate := baudrate state,
         consoleBaudrate := consoleBaudrate state,
         consoleDataBits := consoleDataBits state,
         consoleStopBits := consoleStopBits state,
         consoleParity := consoleParity state,
         debugLogging := debugLogging state \<rparr>"

section \<open>The provider (src/context/ESPLoaderProvider.tsx)\<close>

subsection \<open>External collaborators, effects and mutable references\<close>

text \<open>
  The serial API, the transport and the programmer engine are outside the repository.  What
  such a call does is an input of the model: every \<open>await\<close> on one of them either returns or
  throws, and the engine may call back into the terminal object and the progress callback it
  was given.  The logger writes to the browser console only and is left out.  A thrown
  value is an object; only its \<open>message\<close> is read.
\<close>

datatype 'a Outcome = Returns 'a | Throws JsError

datatype TerminalCall = Clean | WriteLine string | Write string

datatype EngineCallback = Terminal TerminalCall | ReportProgress int int int

datatype ESPFile = ESPFile string int "string option"

datatype FlashFile = FlashFile string int string

datatype ExternalCall =
    GetSerialInstance
  | RequestPort
  | PortOpen SerialPort int DataBits StopBits Parity
  | PortClose SerialPort
  | TransportDisconnect Transport
  | ReaderCancel Reader
  | GetReader SerialPort
  | LoaderMain ESPLoader
  | WriteFlash ESPLoader "FlashFile list"
  | EraseFlash ESPLoader
  | ReadLoop Reader

text \<open>
  What a call of the provider does, in order: a \<open>dispatch\<close> to the reducer, a timer
  (\<open>setTimeout\<close>, in milliseconds) or a call of a collaborator.
\<close>

datatype Effect = Dispatch Action | Delay nat | Call ExternalCall

text \<open>The \<open>useRef\<close> cells of the provider.\<close>

record Refs =
  programDevice :: "SerialPort option"
  programTransport :: "Transport option"
  esploaderInstance :: "ESPLoader option"
  consoleDevice :: "SerialPort option"
  consoleTransport :: "Transport option"
  consoleReader :: "Reader option"
  keepConsoleReading :: bool
  consoleReadingInProgress :: bool

definition initialRefs :: Refs where
  "initialRefs =
     \<lparr> programDevice = None, programTransport = None, esploaderInstance = None,
       consoleDevice = None, consoleTransport = None, consoleReader = None,
       keepConsoleReading = False, consoleReadingInProgress = False \<rparr>"

text \<open>The props of the provider and the state \<open>useReducer\<close> starts from.\<close>

record ProviderProps =
  initialBaudrate :: "int option"
  initialConsoleBaudrate :: "int option"
  initialDebugLogging :: "bool option"
  initialRomBaudrate :: "int option"

definition providerInitialState :: "ProviderProps \<Rightarrow> ESPLoaderState" where
  "providerInitialState props =
     initialESPLoaderState
       \<lparr> baudrate := (case initialBaudrate props of None \<Rightarrow> 115200 | Some b \<Rightarrow> b),
         consoleBaudrate :=
           (case initialConsoleBaudrate props of
              None \<Rightarrow> consoleBaudrate initialESPLoaderState | Some b \<Rightarrow> b),
         debugLogging :=
           (case initialDebugLogging props of
              None \<Rightarrow> debugLogging initialESPLoaderState | Some d \<Rightarrow> d) \<rparr>"

definition romBaudrate :: "ProviderProps \<Rightarrow> ESPLoaderState \<Rightarrow> int" where
  "romBaudrate props state =
     (case initialRomBaudrate props of None \<Rightarrow> baudrate state | Some r \<Rightarrow> r)"

text \<open>The terminal object handed to the engine: each method is one dispatch.\<close>

fun esploaderTerminal :: "TerminalCall \<Rightarrow> Action" where
  "esploaderTerminal Clean = CLEAR_TERMINAL_OUTPUT"
| "esploaderTerminal (WriteLine d) = ADD_TERMINAL_OUTPUT d"
| "esploaderTerminal (Write d) = APPEND_TERMINAL_OUTPUT d"

text \<open>
  \<open>try { await call } catch (e) { logger.debug(...) }\<close>: the call is made and what it throws
  is swallowed.
\<close>

definition tryIgnore :: "ExternalCall \<Rightarrow> unit Outcome \<Rightarrow> Effect list" where
  "tryIgnore c outcome = (case outcome of Returns _ \<Rightarrow> [Call c] | Throws _ \<Rightarrow> [Call c])"

text \<open>The actions a run dispatches, and the states an observer of the reducer sees.\<close>

fun dispatched :: "Effect list \<Rightarrow> Action list" where
  "dispatched [] = []"
| "dispatched (Dispatch a # es) = a # dispatched es"
| "dispatched (Delay ms # es) = dispatched es"
| "dispatched (Call c # es) = dispatched es"

fun snapshots :: "ESPLoaderState \<Rightarrow> Action list \<Rightarrow> ESPLoaderState list" where
  "snapshots state [] = []"
| "snapshots state (a # as) = esploaderReducer state a # snapshots (esploaderReducer state a) as"

definition finalState :: "ESPLoaderState \<Rightarrow> Effect list \<Rightarrow> ESPLoaderState" where
  "finalState state effects = foldl esploaderReducer state (dispatched effects)"


fun isDispatch :: "Effect \<Rightarrow> bool" where
  "isDispatch (Dispatch a) = True"
| "isDispatch (Delay ms) = False"
| "isDispatch (Call c) = False"

definition timeline :: "Effect list \<Rightarrow> Effect list" where
  "timeline effects = filter (\<lambda>e. \<not> isDispatch e) effects"

subsection \<open>stopConsole\<close>

record StopConsoleEnv =
  readerCancel :: "unit Outcome"
  stopTransportDisconnect :: "unit Outcome"
  stopDeviceReadable :: bool
  stopDeviceClose :: "unit Outcome"

definition stopConsole :: "Refs \<Rightarrow> StopConsoleEnv \<Rightarrow> Effect list \<times> Refs" where
  "stopConsole refs env =
     (let cancelEffects =
            (case consoleReader refs of
               None \<Rightarrow> []
             | Some r \<Rightarrow> tryIgnore (ReaderCancel r) (readerCancel env));
          disconnectEffects =
            (case consoleTransport refs of
               None \<Rightarrow> []
             | Some t \<Rightarrow> tryIgnore (TransportDisconnect t) (stopTransportDisconnect env));
          closeEffects =
            (case consoleDevice refs of
               None \<Rightarrow> []
             | Some p \<Rightarrow>
                 if stopDeviceReadable env then tryIgnore (PortClose p) (stopDeviceClose env)
                 else [])
      in (cancelEffects @ disconnectEffects @ closeEffects @
            [Dispatch (SET_IS_CONSOLE_CONNECTED False)],
          refs\<lparr> keepConsoleReading := False, consoleReadingInProgress := False,
                consoleReader := None, consoleTransport := None, consoleDevice := None \<rparr>))"

subsection \<open>connect\<close>

record ConnectEnv =
  connectStopConsole :: StopConsoleEnv
  connectSerialInstance :: "unit Outcome"
  connectRequestPort :: "SerialPort option Outcome"
  loaderConstructor :: "TerminalCall list"
  loaderMain :: "nat \<Rightarrow> TerminalCall list \<times> unit Outcome"
  chipName :: string
  cleanupDisconnect :: "unit Outcome"
  cleanupReadable :: bool
  cleanupClose :: "unit Outcome"

definition maxRetries :: nat where
  "maxRetries = 3"

text \<open>
  The tests the retry loop makes on \<open>connectError.message?.toLowerCase() || ""\<close>.
\<close>

definition connectErrorMsg :: "JsError \<Rightarrow> string" where
  "connectErrorMsg connectError =
     (case message connectError of None \<Rightarrow> [] | Some m \<Rightarrow> toLowerCase m)"

definition permissionDenied :: "string \<Rightarrow> bool" where
  "permissionDenied errorMsg =
     (includes' errorMsg ''permission'' \<or> includes' errorMsg ''access denied'')"

definition communicationError :: "string \<Rightarrow> bool" where
  "communicationError errorMsg =
     (includes' errorMsg ''timeout'' \<or> includes' errorMsg ''sync'' \<or>
      includes' errorMsg ''invalid data'')"

text \<open>
  The retry loop \<open>for (let attempt = 1; attempt <= maxRetries; attempt++)\<close>.  It returns
  when \<open>loader.main()\<close> does (\<open>break\<close>), and throws what the body rethrows.
\<close>

function connectAttempts ::
  "(nat \<Rightarrow> TerminalCall list \<times> unit Outcome) \<Rightarrow> ESPLoader \<Rightarrow> nat \<Rightarrow> Effect list \<times> unit Outcome"
where
  "connectAttempts main loader attempt =
     (if attempt \<le> maxRetries then
        (let body =
               (if attempt > 1 then [Delay (1000 * attempt)] else []) @
               [Call (LoaderMain loader)] @
               map (\<lambda>t. Dispatch (esploaderTerminal t)) (fst (main attempt))
         in case snd (main attempt) of
              Returns _ \<Rightarrow> (body, Returns ())
            | Throws connectError \<Rightarrow>
                if attempt = maxRetries then (body, Throws connectError)
                else
                  (let errorMsg = connectErrorMsg connectError
                   in if permissionDenied errorMsg then (body, Throws connectError)
                      else
                        (let extra = (if communicationError errorMsg then [Delay 2000] else []);
                             rest = connectAttempts main loader (attempt + 1)
                         in (body @ extra @ fst rest, snd rest))))
      else ([], Returns ()))"
  by pat_completeness auto
termination
  by (relation "measure (\<lambda>(main, loader, attempt). Suc maxRetries - attempt)") auto

declare connectAttempts.simps [simp del]

text \<open>
  The \<open>try\<close> block of \<open>connect\<close>.  Between the retry loop and the success dispatches the
  source has \<open>try { await Promise.resolve() } catch (connectError) { ... }\<close>: the awaited
  promise is already resolved, the block cannot throw, and its handler (the multi-line
  remediation messages) never runs; it contributes no effect.
\<close>

definition connectTry ::
  "ProviderProps \<Rightarrow> ESPLoaderState \<Rightarrow> Refs \<Rightarrow> SerialPort option \<Rightarrow> ConnectEnv \<Rightarrow>
     Effect list \<times> Refs \<times> string Outcome"
where
  "connectTry props state refs portToUse env =
     (case connectSerialInstance env of
        Throws e \<Rightarrow> ([Call GetSerialInstance], refs, Throws e)
      | Returns _ \<Rightarrow>
          (let portEffects = (case portToUse of None \<Rightarrow> [Call RequestPort] | Some p \<Rightarrow> []);
               selected = (case portToUse of None \<Rightarrow> connectRequestPort env | Some p \<Rightarrow> Returns (Some p))
           in case selected of
                Throws e \<Rightarrow> ([Call GetSerialInstance] @ portEffects, refs, Throws e)
              | Returns None \<Rightarrow>
                  ([Call GetSerialInstance] @ portEffects @
                     [Dispatch (SET_ERROR (Some (ErrorString ''No port selected''))),
                      Dispatch (SET_IS_LOADING False)],
                   refs, Returns [])
              | Returns (Some selectedPort) \<Rightarrow>
                  (let transport = Transport selectedPort (debugLogging state);
                       loader = ESPLoader transport (baudrate state) (romBaudrate props state);
                       refs' = refs\<lparr> programDevice := Some selectedPort,
                                     programTransport := Some transport,
                                     esploaderInstance := Some loader \<rparr>;
                       setup = [Call GetSerialInstance] @ portEffects @
                               map (\<lambda>t. Dispatch (esploaderTerminal t)) (loaderConstructor env);
                       attempts = connectAttempts (loaderMain env) loader 1
                   in case snd attempts of
                        Throws e \<Rightarrow> (setup @ fst attempts, refs', Throws e)
                      | Returns _ \<Rightarrow>
                          (setup @ fst attempts @
                             [Dispatch (SET_ESPLOADER (Some loader)),
                              Dispatch (SET_TRANSPORT (Some transport)),
                              Dispatch (SET_IS_CONNECTED True),
                              Dispatch (SET_CHIP (Some (chipName env)))],
                           refs', Returns (chipName env)))))"

definition connectUserMessage :: "string \<Rightarrow> string" where
  "connectUserMessage errorMessage =
     (if includes' errorMessage ''timeout'' then
        ''Connection timeout. Try pressing the BOOT button on your device while connecting.''
      else if includes' errorMessage ''NetworkError'' \<or>
              includes' errorMessage (''Failed to execute '' @ [CHR 0x27] @ ''open'' @ [CHR 0x27])
      then ''USB connection error. Try disconnecting and reconnecting your device.''
      else if includes' errorMessage ''invalid data'' \<or> includes' errorMessage ''Invalid data''
      then ''Received invalid data. Try a different baudrate or check your USB connection.''
      else errorMessage)"

text \<open>The \<open>catch (e)\<close> block of \<open>connect\<close>; it returns the empty string.\<close>

definition connectCatch :: "Refs \<Rightarrow> JsError \<Rightarrow> ConnectEnv \<Rightarrow> Effect list \<times> Refs" where
  "connectCatch refs e env =
     (let errorMessage = orElse (message e) ''Failed to connect'';
          userMessage = connectUserMessage errorMessage;
          disconnectEffects =
            (case programTransport refs of
               None \<Rightarrow> []
             | Some t \<Rightarrow> tryIgnore (TransportDisconnect t) (cleanupDisconnect env));
          closeEffects =
            (case programDevice refs of
               None \<Rightarrow> []
             | Some p \<Rightarrow>
                 if cleanupReadable env then
                   (case cleanupClose env of
                      Returns _ \<Rightarrow> [Call (PortClose p), Delay 1000]
                    | Throws _ \<Rightarrow> [Call (PortClose p)])
                 else [Delay 1000])
      in ([Dispatch (SET_ERROR (Some (ErrorString userMessage))),
           Dispatch (SET_IS_CONNECTED False)] @ disconnectEffects @ closeEffects,
          refs\<lparr> programTransport := None, programDevice := None, esploaderInstance := None \<rparr>))"

text \<open>
  \<open>connect(portToUse)\<close>: the effects in order, the references afterwards and the string the
  promise resolves to.  \<open>state\<close> is the state the callback closes over.
\<close>

definition connect ::
  "ProviderProps \<Rightarrow> ESPLoaderState \<Rightarrow> Refs \<Rightarrow> SerialPort option \<Rightarrow> ConnectEnv \<Rightarrow>
     Effect list \<times> Refs \<times> string"
where
  "connect props state refs portToUse env =
     (let start = [Dispatch (SET_IS_LOADING True), Dispatch (SET_ERROR None)];
          stopped = (if isConsoleConnected state then stopConsole refs (connectStopConsole env)
                     else ([], refs));
          tried = connectTry props state (snd stopped) portToUse env;
          finally = [Dispatch (SET_IS_LOADING False)]
      in case snd (snd tried) of
           Returns name \<Rightarrow> (start @ fst stopped @ fst tried @ finally, fst (snd tried), name)
         | Throws e \<Rightarrow>
             (let caught = connectCatch (fst (snd tried)) e env
              in (start @ fst stopped @ fst tried @ fst caught @ finally, snd caught, [])))"

subsection \<open>disconnect\<close>

record DisconnectEnv =
  transportDisconnect :: "unit Outcome"
  deviceReadable :: bool
  deviceClose :: "unit Outcome"

definition disconnect :: "Refs \<Rightarrow> DisconnectEnv \<Rightarrow> Effect list \<times> Refs" where
  "disconnect refs env =
     (let start = [Dispatch (SET_IS_LOADING True)];
          finally =
            [Dispatch (SET_IS_CONNECTED False), Dispatch (SET_ESPLOADER None),
             Dispatch (SET_TRANSPORT None), Dispatch (SET_CHIP None),
             Dispatch (SET_IS_LOADING False)];
          disconnectEffects =
            (case programTransport refs of
               None \<Rightarrow> [] | Some t \<Rightarrow> [Call (TransportDisconnect t)]);
          thrown =
            (case programTransport refs of
               None \<Rightarrow> None
             | Some t \<Rightarrow> (case transportDisconnect env of Returns _ \<Rightarrow> None | Throws e \<Rightarrow> Some e))
      in case thrown of
           Some e \<Rightarrow>
             (start @ disconnectEffects @
                [Dispatch (SET_ERROR
                   (Some (ErrorString (orElse (message e) ''Failed to disconnect''))))] @
                finally,
              refs)
         | None \<Rightarrow>
             (start @ disconnectEffects @
                (case programDevice refs of
                   None \<Rightarrow> []
                 | Some p \<Rightarrow>
                     (if deviceReadable env then tryIgnore (PortClose p) (deviceClose env)
                      else []) @ [Delay 2000]) @
                [Dispatch RESET_STATE] @ finally,
              refs\<lparr> programDevice := None, programTransport := None,
                    esploaderInstance := None \<rparr>))"

subsection \<open>program and eraseFlash\<close>

definition hexDigit :: "nat \<Rightarrow> char" where
  "hexDigit d = ''0123456789abcdef'' ! d"

fun toHex :: "nat \<Rightarrow> string" where
  "toHex n = (if n < 16 then [hexDigit n] else toHex (n div 16) @ [hexDigit (n mod 16)])"

text \<open>\<open>Number.prototype.toString(16)\<close> on an integer.\<close>

definition toString16 :: "int \<Rightarrow> string" where
  "toString16 a = (if a < 0 then ''-'' @ toHex (nat (- a)) else toHex (nat a))"

fun toFlashFile :: "ESPFile \<Rightarrow> FlashFile" where
  "toFlashFile (ESPFile data address name) =
     FlashFile data address (orElse name (''file_0x'' @ toString16 address))"

fun flashFileName :: "FlashFile \<Rightarrow> string" where
  "flashFileName (FlashFile data address name) = name"

text \<open>\<open>fileArray[fIndex]?.name\<close>: \<open>undefined\<close> when the index is not one of the array.\<close>

definition nameAt :: "FlashFile list \<Rightarrow> int \<Rightarrow> string option" where
  "nameAt fileArray fIndex =
     (if 0 \<le> fIndex \<and> nat fIndex < length fileArray
      then Some (flashFileName (fileArray ! nat fIndex)) else None)"

text \<open>What a callback of the engine dispatches during \<open>writeFlash\<close>.\<close>

fun flashCallback :: "FlashFile list \<Rightarrow> EngineCallback \<Rightarrow> Effect" where
  "flashCallback fileArray (Terminal t) = Dispatch (esploaderTerminal t)"
| "flashCallback fileArray (ReportProgress fIndex nWritten nTotal) =
     Dispatch (SET_FLASH_PROGRESS
       (Some \<lparr> fileIndex = fIndex,
               fileName = orElse (nameAt fileArray fIndex) ''Unknown file'',
               written = nWritten,
               total' = nTotal \<rparr>))"

definition notConnectedMessage :: string where
  "notConnectedMessage = ''Not connected in Program mode. Please connect to a device first.''"

text \<open>
  \<open>program(files, options)\<close>.  The options go to the engine only; what the engine does with
  them is part of its outcome \<open>engine\<close>: the callbacks it makes and whether it throws.
\<close>

definition program ::
  "ESPLoaderState \<Rightarrow> Refs \<Rightarrow> ESPFile list \<Rightarrow> EngineCallback list \<times> unit Outcome \<Rightarrow> Effect list"
where
  "program state refs files engine =
     (case esploaderInstance refs of
        None \<Rightarrow> [Dispatch (SET_ERROR (Some (ErrorString notConnectedMessage)))]
      | Some loader \<Rightarrow>
          if \<not> isConnected state then
            [Dispatch (SET_ERROR (Some (ErrorString notConnectedMessage)))]
          else
            (let fileArray = map toFlashFile files
             in [Dispatch (SET_IS_FLASHING True), Dispatch (SET_ERROR None)] @
                [Call (WriteFlash loader fileArray)] @
                map (flashCallback fileArray) (fst engine) @
                (case snd engine of
                   Returns _ \<Rightarrow> []
                 | Throws e \<Rightarrow>
                     [Dispatch (SET_ERROR
                        (Some (ErrorString (orElse (message e) ''Failed to program''))))]) @
                [Dispatch (SET_IS_FLASHING False), Dispatch (SET_FLASH_PROGRESS None)]))"

definition eraseFlash ::
  "ESPLoaderState \<Rightarrow> Refs \<Rightarrow> TerminalCall list \<times> unit Outcome \<Rightarrow> Effect list"
where
  "eraseFlash state refs engine =
     (case esploaderInstance refs of
        None \<Rightarrow> [Dispatch (SET_ERROR (Some (ErrorString notConnectedMessage)))]
      | Some loader \<Rightarrow>
          if \<not> isConnected state then
            [Dispatch (SET_ERROR (Some (ErrorString notConnectedMessage)))]
          else
            [Dispatch (SET_IS_ERASING True), Dispatch (SET_ERROR None)] @
            [Call (EraseFlash loader)] @
            map (\<lambda>t. Dispatch (esploaderTerminal t)) (fst engine) @
            (case snd engine of
               Returns _ \<Rightarrow> []
             | Throws e \<Rightarrow>
                 [Dispatch (SET_ERROR
                    (Some (ErrorString (orElse (message e) ''Failed to erase flash''))))]) @
            [Dispatch (SET_IS_ERASING False)])"

subsection \<open>startConsole\<close>

record StartConsoleEnv =
  startDisconnect :: DisconnectEnv
  staleReadable :: bool
  staleClose :: "unit Outcome"
  startSerialInstance :: "unit Outcome"
  startRequestPort :: "SerialPort option Outcome"
  selectedReadable :: bool
  selectedClose :: "unit Outcome"
  portOpen :: "unit Outcome"
  openedReadable :: bool
  openedLocked :: bool
  recoveryClose :: "unit Outcome"
  recoveryOpen :: "unit Outcome"
  recoveryReadable :: bool
  recoveryLocked :: bool
  getReader :: "Reader option Outcome"
  catchDisconnect :: "unit Outcome"
  catchReadable :: bool
  catchClose :: "unit Outcome"

text \<open>A thrown value's message inside a template string.\<close>

definition interpolate :: "string option \<Rightarrow> string" where
  "interpolate m = (case m of None \<Rightarrow> ''undefined'' | Some s \<Rightarrow> s)"

text \<open>
  The recovery from a locked stream: the inner \<open>try\<close> that closes and reopens the port, and
  the handler that wraps what went wrong.  \<open>None\<close> when the stream is unlocked afterwards.
\<close>

definition lockRecovery ::
  "ESPLoaderState \<Rightarrow> SerialPort \<Rightarrow> StartConsoleEnv \<Rightarrow> Effect list \<times> JsError option"
where
  "lockRecovery state port env =
     (let reopen = PortOpen port (consoleBaudrate state) (consoleDataBits state)
                     (consoleStopBits state) (consoleParity state);
          wrap = (\<lambda>recoveryError.
                    Some (JsError (Some (''ReadableStream recovery failed: '' @
                      interpolate (message recoveryError) @
                      ''. Please refresh the page and try again.''))))
      in case recoveryClose env of
           Throws e \<Rightarrow> ([Call (PortClose port)], wrap e)
         | Returns _ \<Rightarrow>
             (case recoveryOpen env of
                Throws e \<Rightarrow> ([Call (PortClose port), Delay 1000, Call reopen], wrap e)
              | Returns _ \<Rightarrow>
                  ([Call (PortClose port), Delay 1000, Call reopen],
                   if \<not> recoveryReadable env then
                     wrap (JsError (Some ''Failed to reopen port for console mode''))
                   else if recoveryLocked env then
                     wrap (JsError (Some
                       ''ReadableStream is still locked after recovery attempt. Please refresh the page and try again.''))
                   else None)))"

text \<open>
  The part of the \<open>try\<close> block after \<open>SET_IS_CONSOLE_CONNECTED\<close> was dispatched: the checks
  of the readable stream, the reader and the launch of the detached read loop.
\<close>

definition startReading ::
  "ESPLoaderState \<Rightarrow> Refs \<Rightarrow> SerialPort \<Rightarrow> StartConsoleEnv \<Rightarrow> Effect list \<times> Refs \<times> unit Outcome"
where
  "startReading state refs port env =
     (if \<not> openedReadable env then
        ([], refs, Throws (JsError (Some ''No readable stream available from serial port'')))
      else
        (let recovery = (if openedLocked env then lockRecovery state port env else ([], None))
         in case snd recovery of
              Some e \<Rightarrow> (fst recovery, refs, Throws e)
            | None \<Rightarrow>
                (case getReader env of
                   Throws e \<Rightarrow> (fst recovery @ [Call (GetReader port)], refs, Throws e)
                 | Returns None \<Rightarrow>
                     (fst recovery @ [Call (GetReader port)], refs,
                      Throws (JsError (Some ''Failed to get reader for console.'')))
                 | Returns (Some reader) \<Rightarrow>
                     if consoleReadingInProgress refs then
                       (fst recovery @ [Call (GetReader port)],
                        refs\<lparr>consoleReader := Some reader\<rparr>, Returns ())
                     else
                       (fst recovery @ [Call (GetReader port), Call (ReadLoop reader)],
                        refs\<lparr>consoleReader := Some reader, consoleReadingInProgress := True\<rparr>,
                        Returns ()))))"

text \<open>The \<open>try\<close> block of \<open>startConsole\<close>.\<close>

definition startConsoleTry ::
  "ESPLoaderState \<Rightarrow> Refs \<Rightarrow> SerialPort option \<Rightarrow> StartConsoleEnv \<Rightarrow>
     Effect list \<times> Refs \<times> unit Outcome"
where
  "startConsoleTry state refs portToUse env =
     (case startSerialInstance env of
        Throws e \<Rightarrow> ([Call GetSerialInstance], refs, Throws e)
      | Returns _ \<Rightarrow>
          (let portEffects = (case portToUse of None \<Rightarrow> [Call RequestPort] | Some p \<Rightarrow> []);
               selected = (case portToUse of None \<Rightarrow> startRequestPort env | Some p \<Rightarrow> Returns (Some p))
           in case selected of
                Throws e \<Rightarrow> ([Call GetSerialInstance] @ portEffects, refs, Throws e)
              | Returns None \<Rightarrow>
                  ([Call GetSerialInstance] @ portEffects @
                     [Dispatch (SET_ERROR (Some (ErrorString ''No port selected for console.''))),
                      Dispatch (SET_IS_LOADING False)],
                   refs, Returns ())
              | Returns (Some selectedPort) \<Rightarrow>
                  (let refs1 = refs\<lparr>consoleDevice := Some selectedPort\<rparr>;
                       closeFirst =
                         (if selectedReadable env then
                            (case selectedClose env of
                               Returns _ \<Rightarrow> [Call (PortClose selectedPort), Delay 500]
                             | Throws _ \<Rightarrow> [Call (PortClose selectedPort)])
                          else []);
                       opening =
                         [Call GetSerialInstance] @ portEffects @ closeFirst @
                         [Call (PortOpen selectedPort (consoleBaudrate state)
                                  (consoleDataBits state) (consoleStopBits state)
                                  (consoleParity state))]
                   in case portOpen env of
                        Throws e \<Rightarrow> (opening, refs1, Throws e)
                      | Returns _ \<Rightarrow>
                          (let refs2 = refs1\<lparr> consoleTransport :=
                                                Some (Transport selectedPort (debugLogging state)),
                                              keepConsoleReading := True \<rparr>;
                               reading = startReading state refs2 selectedPort env
                           in (opening @ [Dispatch (SET_IS_CONSOLE_CONNECTED True)] @ fst reading,
                               snd reading)))))"

text \<open>
  The \<open>catch (e)\<close> block of \<open>startConsole\<close>.  Its \<open>consoleTransport.current.disconnect()\<close>
  is awaited outside any inner \<open>try\<close>: what it throws leaves the block at once, and is the
  value the promise of \<open>startConsole\<close> rejects with.
\<close>

definition startConsoleCatch ::
  "Refs \<Rightarrow> JsError \<Rightarrow> StartConsoleEnv \<Rightarrow> Effect list \<times> Refs \<times> unit Outcome"
where
  "startConsoleCatch refs e env =
     (let surfaced = [Dispatch (SET_ERROR
                        (Some (ErrorString (orElse (message e) ''Failed to start console''))))];
          disconnectEffects =
            (case consoleTransport refs of
               None \<Rightarrow> [] | Some t \<Rightarrow> [Call (TransportDisconnect t)]);
          thrown =
            (case consoleTransport refs of
               None \<Rightarrow> None
             | Some t \<Rightarrow> (case catchDisconnect env of Returns _ \<Rightarrow> None | Throws e' \<Rightarrow> Some e'))
      in case thrown of
           Some e' \<Rightarrow> (surfaced @ disconnectEffects, refs, Throws e')
         | None \<Rightarrow>
             (surfaced @ disconnectEffects @
                (case consoleDevice refs of
                   None \<Rightarrow> []
                 | Some p \<Rightarrow>
                     if catchReadable env then tryIgnore (PortClose p) (catchClose env) else []) @
                [Dispatch (SET_IS_CONSOLE_CONNECTED False)],
              refs\<lparr>consoleTransport := None, consoleDevice := None\<rparr>,
              Returns ()))"

text \<open>
  \<open>startConsole\<close> from the check \<open>if (state.isConsoleConnected)\<close> on: the early return,
  the stale console device, and the \<open>try\<close>, \<open>catch\<close> and \<open>finally\<close> blocks.
\<close>

definition startConsoleFrom ::
  "ESPLoaderState \<Rightarrow> Refs \<Rightarrow> SerialPort option \<Rightarrow> StartConsoleEnv \<Rightarrow>
     Effect list \<times> Refs \<times> unit Outcome"
where
  "startConsoleFrom state refs portToUse env =
     (if isConsoleConnected state then
        ([Dispatch (SET_IS_LOADING False)], refs, Returns ())
      else
        (let staleEffects =
               (case consoleDevice refs of
                  None \<Rightarrow> []
                | Some p \<Rightarrow>
                    if staleReadable env then tryIgnore (PortClose p) (staleClose env) else []);
             refs' = (case consoleDevice refs of
                        None \<Rightarrow> refs | Some p \<Rightarrow> refs\<lparr>consoleDevice := None\<rparr>);
             tried = startConsoleTry state refs' portToUse env;
             finally = [Dispatch (SET_IS_LOADING False)]
         in case snd (snd tried) of
              Returns _ \<Rightarrow> (staleEffects @ fst tried @ finally, fst (snd tried), Returns ())
            | Throws e \<Rightarrow>
                (let caught = startConsoleCatch (fst (snd tried)) e env
                 in (staleEffects @ fst tried @ fst caught @ finally, snd caught))))"

text \<open>
  \<open>startConsole(portToUse)\<close>.  \<open>state\<close> is the state the callback closes over.  The read
  loop it launches is a detached task: the run records the launch (\<open>ReadLoop\<close>); what the
  loop dispatches later is \<open>readLoopDispatch\<close> below.
\<close>

definition startConsole ::
  "ESPLoaderState \<Rightarrow> Refs \<Rightarrow> SerialPort option \<Rightarrow> StartConsoleEnv \<Rightarrow>
     Effect list \<times> Refs \<times> unit Outcome"
where
  "startConsole state refs portToUse env =
     (let start = [Dispatch (SET_IS_LOADING True), Dispatch (SET_ERROR None)];
          disconnected =
            (if isConnected state then
               (let d = disconnect refs (startDisconnect env) in (fst d @ [Delay 2000], snd d))
             else ([], refs));
          rest = startConsoleFrom state (snd disconnected) portToUse env
      in (start @ fst disconnected @ fst rest, snd rest))"

subsection \<open>The detached read loop\<close>

text \<open>
  The task \<open>startConsole\<close> launches and does not await.  It runs between and during later
  calls; what it can dispatch is: the decoded text of a chunk (\<open>esploaderTerminal.write\<close>),
  the error of a failed read while \<open>keepConsoleReading\<close> holds, and, in its \<open>finally\<close>
  block after a stop, \<open>SET_IS_CONSOLE_CONNECTED\<close> false.
\<close>

datatype ReadLoopEvent = ChunkDecoded string | ReadFailed JsError | StoppedCleanup

fun readLoopDispatch :: "ReadLoopEvent \<Rightarrow> Action" where
  "readLoopDispatch (ChunkDecoded decodedText) = esploaderTerminal (Write decodedText)"
| "readLoopDispatch (ReadFailed e) =
     SET_ERROR (Some (ErrorString (''Console read error: '' @ interpolate (message e))))"
| "readLoopDispatch StoppedCleanup = SET_IS_CONSOLE_CONNECTED False"

subsection \<open>The two modes\<close>

text \<open>
  Every function above takes the state its callback closes over (\<open>state\<close>) apart from the
  state the reducer holds when its dispatches arrive: \<open>useCallback\<close> keeps the \<open>state\<close> of
  the render that created the callback, and a caller that holds on to \<open>actions\<close> (two awaited
  calls in one event handler) calls with the state of that render.
\<close>

definition exclusive :: "ESPLoaderState \<Rightarrow> bool" where
  "exclusive state = (\<not> (isConnected state \<and> isConsoleConnected state))"

section \<open>Example sessions\<close>

text \<open>
  Concrete inputs for the examples below: a provider mounted without props, collaborators
  that succeed, a handshake whose outcome is a parameter, and the state and references a
  successful \<open>connect\<close> on port 1 leaves behind.
\<close>

definition exampleProps :: ProviderProps where
  "exampleProps =
     \<lparr> initialBaudrate = None, initialConsoleBaudrate = None, initialDebugLogging = None,
       initialRomBaudrate = None \<rparr>"

definition quietStop :: StopConsoleEnv where
  "quietStop =
     \<lparr> readerCancel = Returns (), stopTransportDisconnect = Returns (),
       stopDeviceReadable = True, stopDeviceClose = Returns () \<rparr>"

definition handshake :: "(nat \<Rightarrow> TerminalCall list \<times> unit Outcome) \<Rightarrow> ConnectEnv" where
  "handshake main =
     \<lparr> connectStopConsole = quietStop, connectSerialInstance = Returns (),
       connectRequestPort = Returns (Some (SerialPort 1)), loaderConstructor = [Clean],
       loaderMain = main, chipName = ''ESP32'', cleanupDisconnect = Returns (),
       cleanupReadable = True, cleanupClose = Returns () \<rparr>"

definition exampleLoader :: ESPLoader where
  "exampleLoader = ESPLoader (Transport (SerialPort 1) False) 115200 115200"

definition connectedState :: ESPLoaderState where
  "connectedState =
     initialESPLoaderState
       \<lparr> transport := Some (Transport (SerialPort 1) False),
         esploader := Some exampleLoader,
         chip := Some ''ESP32'',
         isConnected := True,
         terminalOutput := [''Connecting...''] \<rparr>"

definition connectedRefs :: Refs where
  "connectedRefs =
     initialRefs
       \<lparr> programDevice := Some (SerialPort 1),
         programTransport := Some (Transport (SerialPort 1) False),
         esploaderInstance := Some exampleLoader \<rparr>"

definition readTimeout :: "nat \<Rightarrow> TerminalCall list \<times> unit Outcome" where
  "readTimeout n = ([], Throws (JsError (Some ''Read timeout exceeded'')))"

definition permissionFailure :: "nat \<Rightarrow> TerminalCall list \<times> unit Outcome" where
  "permissionFailure n = ([], Throws (JsError (Some ''Permission denied'')))"

definition timeoutThenPermission :: "nat \<Rightarrow> TerminalCall list \<times> unit Outcome" where
  "timeoutThenPermission n =
     (if n = 1 then ([], Throws (JsError (Some ''Read timeout exceeded'')))
      else ([], Throws (JsError (Some ''Permission denied''))))"

definition quietDisconnect :: DisconnectEnv where
  "quietDisconnect =
     \<lparr> transportDisconnect = Returns (), deviceReadable = True, deviceClose = Returns () \<rparr>"

definition closeFails :: DisconnectEnv where
  "closeFails =
     \<lparr> transportDisconnect = Returns (), deviceReadable = True,
       deviceClose = Throws (JsError (Some ''close failed'')) \<rparr>"

definition handshakeSucceeds :: "nat \<Rightarrow> TerminalCall list \<times> unit Outcome" where
  "handshakeSucceeds n = ([WriteLine ''Connecting...''], Returns ())"

definition secondPortStart :: StartConsoleEnv where
  "secondPortStart =
     \<lparr> startDisconnect = quietDisconnect, staleReadable = False, staleClose = Returns (),
       startSerialInstance = Returns (), startRequestPort = Returns (Some (SerialPort 2)),
       selectedReadable = False, selectedClose = Returns (), portOpen = Returns (),
       openedReadable = True, openedLocked = False, recoveryClose = Returns (),
       recoveryOpen = Returns (), recoveryReadable = True, recoveryLocked = False,
       getReader = Returns (Some (Reader (SerialPort 2))), catchDisconnect = Returns (),
       catchReadable = True, catchClose = Returns () \<rparr>"

definition engineFails :: "string \<Rightarrow> 'a list \<times> unit Outcome" where
  "engineFails msg = ([], Throws (JsError (Some msg)))"

section \<open>Properties of the reducer\<close>

lemma endsWith_iff: "endsWith s t = (\<exists>pre. s = pre @ t)"
proof
  assume "endsWith s t"
  then have "s = take (length s - length t) s @ t"
    unfolding endsWith_def by (metis append_take_drop_id)
  then show "\<exists>pre. s = pre @ t" ..
next
  assume "\<exists>pre. s = pre @ t"
  then show "endsWith s t" by (auto simp: endsWith_def)
qed

lemma slice_all_but_last: "slice xs 0 (- 1) = butlast xs"
  by (cases xs rule: rev_cases) (auto simp: slice_def Let_def butlast_conv_take)

lemma nth_length_minus_1: "xs \<noteq> [] \<Longrightarrow> xs ! (length xs - 1) = last xs"
  by (simp add: last_conv_nth)

text \<open>
  Claim C2.  Whatever the state and the payload (\<open>None\<close> is \<open>null\<close>), the state after
  \<open>SET_ERROR\<close> has the three busy flags off and the payload as its error; so at the instant
  an error is dispatched no state shows an error together with a busy flag.
\<close>

theorem set_error_clears_busy_flags:
  "isLoading (esploaderReducer state (SET_ERROR payload)) = False \<and>
   isFlashing (esploaderReducer state (SET_ERROR payload)) = False \<and>
   isErasing (esploaderReducer state (SET_ERROR payload)) = False \<and>
   error (esploaderReducer state (SET_ERROR payload)) = payload \<and>
   \<not> (error (esploaderReducer state (SET_ERROR payload)) \<noteq> None \<and>
      (isLoading (esploaderReducer state (SET_ERROR payload)) \<or>
       isFlashing (esploaderReducer state (SET_ERROR payload)) \<or>
       isErasing (esploaderReducer state (SET_ERROR payload))))"
  by simp

text \<open>
  Claim C6.  \<open>APPEND_TERMINAL_OUTPUT\<close> joins its payload to the last line exactly when there
  is a last line and that line does not end with a newline, and adds the payload as a new
  line otherwise; the chunks \<open>abc\<close>, \<open>def\<newline>\<close>, \<open>ghi\<close> written to an empty buffer give the
  two lines \<open>abcdef\<newline>\<close> and \<open>ghi\<close>.
\<close>

theorem append_terminal_output_coalesces:
  "terminalOutput (esploaderReducer state (APPEND_TERMINAL_OUTPUT payload)) =
     (if terminalOutput state \<noteq> [] \<and>
         \<not> (\<exists>pre. last (terminalOutput state) = pre @ ''\<newline>'')
      then butlast (terminalOutput state) @ [last (terminalOutput state) @ payload]
      else terminalOutput state @ [payload])
   \<and> terminalOutput
       (foldl esploaderReducer (state\<lparr>terminalOutput := []\<rparr>)
          [APPEND_TERMINAL_OUTPUT ''abc'', APPEND_TERMINAL_OUTPUT ''def\<newline>'',
           APPEND_TERMINAL_OUTPUT ''ghi'']) =
     [''abcdef\<newline>'', ''ghi'']"
proof
  show "terminalOutput (esploaderReducer state (APPEND_TERMINAL_OUTPUT payload)) =
     (if terminalOutput state \<noteq> [] \<and>
         \<not> (\<exists>pre. last (terminalOutput state) = pre @ ''\<newline>'')
      then butlast (terminalOutput state) @ [last (terminalOutput state) @ payload]
      else terminalOutput state @ [payload])"
    by (cases "terminalOutput state = []")
       (simp_all add: endsWith_iff slice_all_but_last nth_length_minus_1 del: One_nat_def)
next
  show "terminalOutput
       (foldl esploaderReducer (state\<lparr>terminalOutput := []\<rparr>)
          [APPEND_TERMINAL_OUTPUT ''abc'', APPEND_TERMINAL_OUTPUT ''def\<newline>'',
           APPEND_TERMINAL_OUTPUT ''ghi'']) =
     [''abcdef\<newline>'', ''ghi'']"
    by (simp add: endsWith_def slice_def)
qed

text \<open>
  Claim C7.  After \<open>RESET_STATE\<close> the six configuration fields have the values they had
  before, and every other field has its value of the initial state: no handles, no chip, all
  flags off, no error, an empty terminal and no flash progress.
\<close>

theorem reset_state_frame:
  "baudrate (esploaderReducer state RESET_STATE) = baudrate state \<and>
   consoleBaudrate (esploaderReducer state RESET_STATE) = consoleBaudrate state \<and>
   consoleDataBits (esploaderReducer state RESET_STATE) = consoleDataBits state \<and>
   consoleStopBits (esploaderReducer state RESET_STATE) = consoleStopBits state \<and>
   consoleParity (esploaderReducer state RESET_STATE) = consoleParity state \<and>
   debugLogging (esploaderReducer state RESET_STATE) = debugLogging state \<and>
   transport (esploaderReducer state RESET_STATE) = None \<and>
   esploader (esploaderReducer state RESET_STATE) = None \<and>
   chip (esploaderReducer state RESET_STATE) = None \<and>
   isConnected (esploaderReducer state RESET_STATE) = False \<and>
   isConsoleConnected (esploaderReducer state RESET_STATE) = False \<and>
   isLoading (esploaderReducer state RESET_STATE) = False \<and>
   isFlashing (esploaderReducer state RESET_STATE) = False \<and>
   isErasing (esploaderReducer state RESET_STATE) = False \<and>
   error (esploaderReducer state RESET_STATE) = None \<and>
   terminalOutput (esploaderReducer state RESET_STATE) = [] \<and>
   flashProgress (esploaderReducer state RESET_STATE) = None"
  by (simp add: initialESPLoaderState_def)

section \<open>Properties of the provider\<close>

subsection \<open>With a current closure the two modes exclude each other\<close>

text \<open>
  What the guards \<open>if (state.isConsoleConnected)\<close> of \<open>connect\<close> and
  \<open>if (state.isConnected)\<close> of \<open>startConsole\<close> achieve when the flag they read is the one
  the reducer holds: the call never shows both modes on.  \<open>disconnect\<close>, \<open>stopConsole\<close> and
  the dispatches of the read loop only lower a flag.
\<close>

lemma dispatched_append [simp]: "dispatched (xs @ ys) = dispatched xs @ dispatched ys"
  by (induction xs rule: dispatched.induct) simp_all

lemma dispatched_tryIgnore [simp]: "dispatched (tryIgnore c outcome) = []"
  by (simp add: tryIgnore_def split: Outcome.splits)

lemma dispatched_terminal [simp]:
  "dispatched (map (\<lambda>t. Dispatch (esploaderTerminal t)) ts) = map esploaderTerminal ts"
  by (induction ts) simp_all

lemma snapshots_append:
  "snapshots state (as @ bs) = snapshots state as @ snapshots (foldl esploaderReducer state as) bs"
  by (induction as arbitrary: state) simp_all

lemma terminal_keeps_flags [simp]:
  "esploaderTerminal t \<noteq> SET_IS_CONNECTED b"
  "esploaderTerminal t \<noteq> SET_IS_CONSOLE_CONNECTED b"
  "esploaderTerminal t \<noteq> RESET_STATE"
  "SET_IS_CONNECTED b \<noteq> esploaderTerminal t"
  "SET_IS_CONSOLE_CONNECTED b \<noteq> esploaderTerminal t"
  "RESET_STATE \<noteq> esploaderTerminal t"
  by (cases t; simp)+

lemma isConsoleConnected_step:
  "a \<noteq> SET_IS_CONSOLE_CONNECTED True \<Longrightarrow> \<not> isConsoleConnected state \<Longrightarrow>
     \<not> isConsoleConnected (esploaderReducer state a)"
  by (cases a) (simp_all add: initialESPLoaderState_def)

lemma isConnected_step:
  "a \<noteq> SET_IS_CONNECTED True \<Longrightarrow> \<not> isConnected state \<Longrightarrow>
     \<not> isConnected (esploaderReducer state a)"
  by (cases a) (simp_all add: initialESPLoaderState_def)

lemma console_stays_off:
  "SET_IS_CONSOLE_CONNECTED True \<notin> set as \<Longrightarrow> \<not> isConsoleConnected state \<Longrightarrow>
     list_all exclusive (snapshots state as) \<and>
     \<not> isConsoleConnected (foldl esploaderReducer state as)"
proof (induction as arbitrary: state)
  case Nil
  then show ?case by simp
next
  case (Cons a as)
  from Cons.prems have off: "\<not> isConsoleConnected (esploaderReducer state a)"
    by (intro isConsoleConnected_step) auto
  with Cons.IH [of "esploaderReducer state a"] Cons.prems show ?case
    by (simp add: exclusive_def)
qed

lemma program_stays_off:
  "SET_IS_CONNECTED True \<notin> set as \<Longrightarrow> \<not> isConnected state \<Longrightarrow>
     list_all exclusive (snapshots state as) \<and>
     \<not> isConnected (foldl esploaderReducer state as)"
proof (induction as arbitrary: state)
  case Nil
  then show ?case by simp
next
  case (Cons a as)
  from Cons.prems have off: "\<not> isConnected (esploaderReducer state a)"
    by (intro isConnected_step) auto
  with Cons.IH [of "esploaderReducer state a"] Cons.prems show ?case
    by (simp add: exclusive_def)
qed

lemma connectAttempts_dispatched:
  "set (dispatched (fst (connectAttempts main loader attempt))) \<subseteq> range esploaderTerminal"
proof (induction main loader attempt rule: connectAttempts.induct)
  case (1 main loader attempt)
  show ?case
    apply (subst connectAttempts.simps)
    using 1
    apply (auto simp: Let_def split: Outcome.splits)
    done
qed

lemma connectAttempts_no_flag:
  "SET_IS_CONSOLE_CONNECTED b \<notin> set (dispatched (fst (connectAttempts main loader attempt)))"
  "SET_IS_CONNECTED b \<notin> set (dispatched (fst (connectAttempts main loader attempt)))"
  using connectAttempts_dispatched [of main loader attempt] terminal_keeps_flags
  by (blast elim: rangeE dest: subsetD)+

lemma stopConsole_dispatched:
  "dispatched (fst (stopConsole refs env)) = [SET_IS_CONSOLE_CONNECTED False]"
  by (simp add: stopConsole_def Let_def split: option.splits)

lemma connectTry_no_console:
  "SET_IS_CONSOLE_CONNECTED True \<notin> set (dispatched (fst (connectTry props state refs portToUse env)))"
  by (auto simp: connectTry_def Let_def connectAttempts_no_flag split: Outcome.splits option.splits)

lemma connectCatch_no_console:
  "SET_IS_CONSOLE_CONNECTED True \<notin> set (dispatched (fst (connectCatch refs e env)))"
  by (auto simp: connectCatch_def Let_def split: Outcome.splits option.splits)

lemma connect_exclusive:
  assumes "exclusive cur" and "isConsoleConnected state = isConsoleConnected cur"
  shows "list_all exclusive (snapshots cur (dispatched (fst (connect props state refs portToUse env))))"
proof -
  define pre where "pre = [SET_IS_LOADING True, SET_ERROR None] @
     dispatched (fst (if isConsoleConnected state then stopConsole refs (connectStopConsole env) else ([], refs)))"
  obtain rest where split: "dispatched (fst (connect props state refs portToUse env)) = pre @ rest"
    and rest: "SET_IS_CONSOLE_CONNECTED True \<notin> set rest"
    unfolding pre_def
    by (cases "snd (snd (connectTry props state (snd (if isConsoleConnected state then stopConsole refs (connectStopConsole env) else ([], refs))) portToUse env))")
       (auto simp: connect_def Let_def connectTry_no_console connectCatch_no_console)
  have pre_ok: "list_all exclusive (snapshots cur pre)"
    and off: "\<not> isConsoleConnected (foldl esploaderReducer cur pre)"
    using assms by (auto simp: pre_def stopConsole_dispatched exclusive_def)
  show ?thesis
    using pre_ok console_stays_off [OF rest off] by (simp add: split snapshots_append)
qed

lemma final_snapshot:
  "foldl esploaderReducer state as \<in> set (state # snapshots state as)"
  by (induction as arbitrary: state) auto

lemma exclusive_final:
  "exclusive state \<Longrightarrow> list_all exclusive (snapshots state as) \<Longrightarrow>
     exclusive (foldl esploaderReducer state as)"
  using final_snapshot [of state as] by (auto simp: list_all_iff)

lemma disconnect_no_program:
  "SET_IS_CONNECTED True \<notin> set (dispatched (fst (disconnect refs env)))"
  by (auto simp: disconnect_def Let_def split: option.splits Outcome.splits)

lemma disconnect_off:
  "\<not> isConnected (foldl esploaderReducer cur (dispatched (fst (disconnect refs env))))"
  by (auto simp: disconnect_def Let_def split: option.splits Outcome.splits)

lemma startReading_no_program:
  "SET_IS_CONNECTED True \<notin> set (dispatched (fst (startReading state refs port env)))"
  by (auto simp: startReading_def lockRecovery_def Let_def split: option.splits Outcome.splits)

lemma startConsoleTry_no_program:
  "SET_IS_CONNECTED True \<notin> set (dispatched (fst (startConsoleTry state refs portToUse env)))"
  by (auto simp: startConsoleTry_def Let_def startReading_no_program split: option.splits Outcome.splits)

lemma startConsoleCatch_no_program:
  "SET_IS_CONNECTED True \<notin> set (dispatched (fst (startConsoleCatch refs e env)))"
  by (auto simp: startConsoleCatch_def Let_def split: option.splits Outcome.splits)

lemma exclusive_step:
  "a \<noteq> SET_IS_CONNECTED True \<Longrightarrow> a \<noteq> SET_IS_CONSOLE_CONNECTED True \<Longrightarrow>
     exclusive state \<Longrightarrow> exclusive (esploaderReducer state a)"
  by (cases a) (auto simp: exclusive_def initialESPLoaderState_def)

lemma lowering_exclusive:
  "SET_IS_CONNECTED True \<notin> set as \<Longrightarrow> SET_IS_CONSOLE_CONNECTED True \<notin> set as \<Longrightarrow>
     exclusive state \<Longrightarrow> list_all exclusive (snapshots state as)"
proof (induction as arbitrary: state)
  case Nil
  then show ?case by simp
next
  case (Cons a as)
  from Cons.prems have "exclusive (esploaderReducer state a)"
    by (intro exclusive_step) auto
  with Cons.IH [of "esploaderReducer state a"] Cons.prems show ?case by simp
qed

lemma disconnect_no_console:
  "SET_IS_CONSOLE_CONNECTED True \<notin> set (dispatched (fst (disconnect refs env)))"
  by (auto simp: disconnect_def Let_def split: option.splits Outcome.splits)

lemma startConsoleFrom_no_program:
  "SET_IS_CONNECTED True \<notin> set (dispatched (fst (startConsoleFrom state refs portToUse env)))"
  by (auto simp: startConsoleFrom_def Let_def startConsoleTry_no_program
        startConsoleCatch_no_program split: option.splits Outcome.splits)

lemma startConsole_exclusive:
  assumes "exclusive cur" and "isConnected state = isConnected cur"
  shows "list_all exclusive (snapshots cur (dispatched (fst (startConsole state refs portToUse env))))"
proof -
  define pre where "pre = [SET_IS_LOADING True, SET_ERROR None] @
     (if isConnected state then dispatched (fst (disconnect refs (startDisconnect env))) else [])"
  define rest where "rest = dispatched (fst (startConsoleFrom state
     (snd (if isConnected state then
               (let d = disconnect refs (startDisconnect env) in (fst d @ [Delay 2000], snd d))
             else ([], refs))) portToUse env))"
  have split: "dispatched (fst (startConsole state refs portToUse env)) = pre @ rest"
    by (simp add: startConsole_def pre_def rest_def Let_def)
  have rest: "SET_IS_CONNECTED True \<notin> set rest"
    unfolding rest_def by (rule startConsoleFrom_no_program)
  have off: "\<not> isConnected (foldl esploaderReducer cur pre)"
    using assms(2) by (simp add: pre_def disconnect_off)
  have pre_ok: "list_all exclusive (snapshots cur pre)"
    using assms(1)
    by (intro lowering_exclusive) (simp_all add: pre_def disconnect_no_program disconnect_no_console)
  show ?thesis
    using pre_ok program_stays_off [OF rest off] by (simp add: split snapshots_append)
qed

lemma disconnect_exclusive:
  "exclusive cur \<Longrightarrow>
     list_all exclusive (snapshots cur (dispatched (fst (disconnect refs env))))"
  by (simp add: lowering_exclusive disconnect_no_program disconnect_no_console)

lemma stopConsole_exclusive:
  "exclusive cur \<Longrightarrow>
     list_all exclusive (snapshots cur (dispatched (fst (stopConsole refs env))))"
  by (simp add: stopConsole_dispatched exclusive_def)

lemma readLoop_exclusive:
  "exclusive cur \<Longrightarrow> exclusive (esploaderReducer cur (readLoopDispatch ev))"
  by (cases ev) (simp_all add: exclusive_def)

subsection \<open>The retry loop, unrolled\<close>

lemma timeline_append [simp]: "timeline (xs @ ys) = timeline xs @ timeline ys"
  by (simp add: timeline_def)

lemma timeline_terminal [simp]: "timeline (map (\<lambda>t. Dispatch (esploaderTerminal t)) ts) = []"
  by (induction ts) (simp_all add: timeline_def)

lemma timeline_simps [simp]:
  "timeline [] = []"
  "timeline (Delay ms # es) = Delay ms # timeline es"
  "timeline (Call c # es) = Call c # timeline es"
  "timeline (Dispatch a # es) = timeline es"
  by (simp_all add: timeline_def)

lemma count_call_terminal [simp]:
  "count_list (map (\<lambda>t. Dispatch (esploaderTerminal t)) ts) (Call c) = 0"
  by (induction ts) simp_all

lemma third_attempt:
  "connectAttempts main loader 3 =
     ([Delay 3000, Call (LoaderMain loader)] @
        map (\<lambda>t. Dispatch (esploaderTerminal t)) (fst (main 3)),
      case snd (main 3) of Returns _ \<Rightarrow> Returns () | Throws e \<Rightarrow> Throws e)"
  by (subst connectAttempts.simps) (simp add: maxRetries_def Let_def split: Outcome.splits)

lemma second_attempt:
  "connectAttempts main loader 2 =
     (let body = [Delay 2000, Call (LoaderMain loader)] @
                 map (\<lambda>t. Dispatch (esploaderTerminal t)) (fst (main 2))
      in case snd (main 2) of
           Returns _ \<Rightarrow> (body, Returns ())
         | Throws e \<Rightarrow>
             if permissionDenied (connectErrorMsg e) then (body, Throws e)
             else (body @ (if communicationError (connectErrorMsg e) then [Delay 2000] else []) @
                     fst (connectAttempts main loader 3),
                   snd (connectAttempts main loader 3)))"
  by (subst connectAttempts.simps) (simp add: maxRetries_def Let_def numeral_3_eq_3 numeral_2_eq_2 split: Outcome.splits)

lemma first_attempt:
  "connectAttempts main loader 1 =
     (let body = [Call (LoaderMain loader)] @
                 map (\<lambda>t. Dispatch (esploaderTerminal t)) (fst (main 1))
      in case snd (main 1) of
           Returns _ \<Rightarrow> (body, Returns ())
         | Throws e \<Rightarrow>
             if permissionDenied (connectErrorMsg e) then (body, Throws e)
             else (body @ (if communicationError (connectErrorMsg e) then [Delay 2000] else []) @
                     fst (connectAttempts main loader 2),
                   snd (connectAttempts main loader 2)))"
  by (subst connectAttempts.simps) (simp add: maxRetries_def Let_def numeral_2_eq_2 split: Outcome.splits)

lemmas first_attempt_Suc = first_attempt [unfolded One_nat_def]

subsection \<open>A stale closure reaches both modes\<close>

text \<open>
  Claim C1, on the code.  An event handler of the first render awaits \<open>connect()\<close> and then
  \<open>startConsole()\<close>.  \<open>connect\<close> succeeds and leaves the connected example session.  The
  \<open>startConsole\<close> the handler holds still closes over the state of the first render, where
  \<open>isConnected\<close> is false: it does not call \<open>disconnect\<close>, opens the port the user picks
  and dispatches \<open>SET_IS_CONSOLE_CONNECTED\<close> true.  The state then has \<open>isConnected\<close> and
  \<open>isConsoleConnected\<close> both true, and stays so when the call is over.
\<close>

theorem stale_closure_reaches_both_modes:
  "finalState (providerInitialState exampleProps)
     (fst (connect exampleProps (providerInitialState exampleProps) initialRefs None
             (handshake handshakeSucceeds))) = connectedState \<and>
   fst (snd (connect exampleProps (providerInitialState exampleProps) initialRefs None
               (handshake handshakeSucceeds))) = connectedRefs \<and>
   isConnected (providerInitialState exampleProps) = False \<and>
   isConsoleConnected (providerInitialState exampleProps) = False \<and>
   dispatched (fst (startConsole (providerInitialState exampleProps) connectedRefs None
                      secondPortStart)) =
     [SET_IS_LOADING True, SET_ERROR None, SET_IS_CONSOLE_CONNECTED True, SET_IS_LOADING False] \<and>
   map (\<lambda>s. (isConnected s, isConsoleConnected s))
     (snapshots connectedState
        (dispatched (fst (startConsole (providerInitialState exampleProps) connectedRefs None
                            secondPortStart)))) =
     [(True, False), (True, False), (True, True), (True, True)] \<and>
   isConnected (finalState connectedState
     (fst (startConsole (providerInitialState exampleProps) connectedRefs None
             secondPortStart))) = True \<and>
   isConsoleConnected (finalState connectedState
     (fst (startConsole (providerInitialState exampleProps) connectedRefs None
             secondPortStart))) = True"
  by (simp add: connect_def connectTry_def handshake_def handshakeSucceeds_def exampleProps_def
        providerInitialState_def initialESPLoaderState_def initialRefs_def romBaudrate_def
        first_attempt_Suc finalState_def connectedState_def connectedRefs_def exampleLoader_def
        startConsole_def startConsoleFrom_def startConsoleTry_def startReading_def
        secondPortStart_def quietDisconnect_def Let_def)

text \<open>
  The same call through the callback of the current render, which closes over the connected
  state, disconnects program mode first and ends in console mode alone.
\<close>

lemma current_closure_switches_modes:
  "isConnected (finalState connectedState
     (fst (startConsole connectedState connectedRefs None secondPortStart))) = False \<and>
   isConsoleConnected (finalState connectedState
     (fst (startConsole connectedState connectedRefs None secondPortStart))) = True"
  by (simp add: startConsole_def startConsoleFrom_def startConsoleTry_def startReading_def
        disconnect_def secondPortStart_def quietDisconnect_def connectedState_def
        connectedRefs_def initialRefs_def initialESPLoaderState_def finalState_def tryIgnore_def
        exampleLoader_def Let_def)

subsection \<open>The retry policy of connect\<close>

text \<open>
  Claim C5, as amended.  The handshake \<open>loader.main()\<close> is made at least once and at most
  three times.  The second attempt comes after a delay of 2 \<times> 1000 ms and the third after
  3 \<times> 1000 ms.  A failure whose lower-cased message contains \<open>permission\<close> or
  \<open>access denied\<close> ends the loop at once and is thrown, with no further attempt: that is
  exactly one attempt when the first attempt fails so, and two when the second does after
  another kind of failure.  Any other failure of the first or second attempt whose message
  contains \<open>timeout\<close>, \<open>sync\<close> or \<open>invalid data\<close> adds a delay of 2000 ms before the
  delay of the next attempt.  What the third attempt throws is thrown by the loop.
\<close>

theorem connect_retry_policy:
  fixes main :: "nat \<Rightarrow> TerminalCall list \<times> unit Outcome" and loader :: ESPLoader
  defines "run \<equiv> connectAttempts main loader 1"
  defines "attempt \<equiv> Call (LoaderMain loader)"
  defines "extra \<equiv> (\<lambda>e. if communicationError (connectErrorMsg e) then [Delay 2000] else [])"
  shows
    "1 \<le> count_list (fst run) attempt \<and>
     count_list (fst run) attempt \<le> 3 \<and>
     (snd (main 1) = Returns () \<longrightarrow>
        timeline (fst run) = [attempt] \<and> snd run = Returns ()) \<and>
     (\<forall>e1. snd (main 1) = Throws e1 \<and> permissionDenied (connectErrorMsg e1) \<longrightarrow>
        timeline (fst run) = [attempt] \<and> snd run = Throws e1) \<and>
     (\<forall>e1. snd (main 1) = Throws e1 \<and> \<not> permissionDenied (connectErrorMsg e1) \<and>
           snd (main 2) = Returns () \<longrightarrow>
        timeline (fst run) = [attempt] @ extra e1 @ [Delay (2 * 1000), attempt] \<and>
        snd run = Returns ()) \<and>
     (\<forall>e1 e2. snd (main 1) = Throws e1 \<and> \<not> permissionDenied (connectErrorMsg e1) \<and>
           snd (main 2) = Throws e2 \<and> permissionDenied (connectErrorMsg e2) \<longrightarrow>
        timeline (fst run) = [attempt] @ extra e1 @ [Delay (2 * 1000), attempt] \<and>
        snd run = Throws e2) \<and>
     (\<forall>e1 e2. snd (main 1) = Throws e1 \<and> \<not> permissionDenied (connectErrorMsg e1) \<and>
           snd (main 2) = Throws e2 \<and> \<not> permissionDenied (connectErrorMsg e2) \<longrightarrow>
        timeline (fst run) =
          [attempt] @ extra e1 @ [Delay (2 * 1000), attempt] @ extra e2 @
          [Delay (3 * 1000), attempt] \<and>
        snd run = (case snd (main 3) of Returns _ \<Rightarrow> Returns () | Throws e3 \<Rightarrow> Throws e3))"
  unfolding run_def attempt_def extra_def first_attempt second_attempt third_attempt
  by (auto simp: Let_def split: Outcome.splits)

text \<open>
  A handshake that is refused for a missing permission is tried once; one that times out
  every time is tried three times, with the delays 2000 + 2000 and 2000 + 3000 in between.
\<close>

theorem connect_retry_policy_witness:
  "timeline (fst (connectAttempts permissionFailure exampleLoader 1)) =
     [Call (LoaderMain exampleLoader)] \<and>
   snd (connectAttempts permissionFailure exampleLoader 1) =
     Throws (JsError (Some ''Permission denied'')) \<and>
   timeline (fst (connectAttempts readTimeout exampleLoader 1)) =
     [Call (LoaderMain exampleLoader), Delay 2000,
      Delay 2000, Call (LoaderMain exampleLoader), Delay 2000,
      Delay 3000, Call (LoaderMain exampleLoader)] \<and>
   snd (connectAttempts readTimeout exampleLoader 1) =
     Throws (JsError (Some ''Read timeout exceeded''))"
  using connect_retry_policy [where main = permissionFailure and loader = exampleLoader]
        connect_retry_policy [where main = readTimeout and loader = exampleLoader]
  by (simp add: permissionFailure_def readTimeout_def connectErrorMsg_def permissionDenied_def
        communicationError_def toLowerCase_def toLowerCaseChar_def)

text \<open>
  Claim C5 as stated fails where the first attempt times out and the second is refused for
  a missing permission: the permission failure ends the loop, after two attempts and not
  one.
\<close>

theorem permission_failure_on_second_attempt:
  "snd (timeoutThenPermission 2) = Throws (JsError (Some ''Permission denied'')) \<and>
   permissionDenied (connectErrorMsg (JsError (Some ''Permission denied''))) \<and>
   timeline (fst (connectAttempts timeoutThenPermission exampleLoader 1)) =
     [Call (LoaderMain exampleLoader), Delay 2000,
      Delay 2000, Call (LoaderMain exampleLoader)] \<and>
   count_list (fst (connectAttempts timeoutThenPermission exampleLoader 1))
     (Call (LoaderMain exampleLoader)) = 2 \<and>
   snd (connectAttempts timeoutThenPermission exampleLoader 1) =
     Throws (JsError (Some ''Permission denied''))"
  by (simp add: first_attempt_Suc second_attempt timeoutThenPermission_def connectErrorMsg_def
        permissionDenied_def communicationError_def toLowerCase_def toLowerCaseChar_def)

subsection \<open>A failed connect\<close>

text \<open>
  Claim C4, on the code.  \<open>connect\<close> on a fresh provider, with a handshake that fails three
  times with \<open>Read timeout exceeded\<close>: the call returns the empty string and clears the
  three references, but the message it dispatches is the one-line one of the outer
  \<open>catch\<close>, and the \<open>SET_IS_CONNECTED\<close> dispatched right after \<open>SET_ERROR\<close> resets the
  error, so the state ends with no error at all.
\<close>

theorem connect_failure_leaves_no_error:
  "snd (snd (connect exampleProps (providerInitialState exampleProps) initialRefs None
               (handshake readTimeout))) = [] \<and>
   fst (snd (connect exampleProps (providerInitialState exampleProps) initialRefs None
               (handshake readTimeout))) = initialRefs \<and>
   dispatched (fst (connect exampleProps (providerInitialState exampleProps) initialRefs None
               (handshake readTimeout))) =
     [SET_IS_LOADING True, SET_ERROR None, CLEAR_TERMINAL_OUTPUT,
      SET_ERROR (Some (ErrorString
        ''Connection timeout. Try pressing the BOOT button on your device while connecting.'')),
      SET_IS_CONNECTED False, SET_IS_LOADING False] \<and>
   error (finalState (providerInitialState exampleProps)
            (fst (connect exampleProps (providerInitialState exampleProps) initialRefs None
                    (handshake readTimeout)))) = None"
  by (simp add: connect_def connectTry_def connectCatch_def handshake_def exampleProps_def
        providerInitialState_def initialESPLoaderState_def initialRefs_def romBaudrate_def
        first_attempt_Suc second_attempt third_attempt readTimeout_def finalState_def Let_def
        connectErrorMsg_def permissionDenied_def communicationError_def toLowerCase_def
        toLowerCaseChar_def connectUserMessage_def orElse_def tryIgnore_def)

text \<open>The same for every failed connect: whatever was thrown, the final error is \<open>null\<close>.\<close>

lemma connect_failure_ends_without_error:
  "snd (snd (connectTry props state (snd (if isConsoleConnected state
         then stopConsole refs (connectStopConsole env) else ([], refs))) portToUse env)) = Throws e \<Longrightarrow>
   error (finalState cur (fst (connect props state refs portToUse env))) = None \<and>
   snd (snd (connect props state refs portToUse env)) = []"
  by (auto simp: connect_def connectCatch_def finalState_def Let_def
           split: option.splits Outcome.splits)

subsection \<open>program and eraseFlash\<close>



text \<open>
  Claim C3, on the code.  On the connected example session, \<open>program\<close> with an engine that
  throws \<open>Failed to write to target RAM\<close> dispatches that message as error and then, in
  its \<open>finally\<close> block, \<open>SET_IS_FLASHING\<close>, whose reducer case resets the error: the state
  after the call has no error.  \<open>eraseFlash\<close> does the same through \<open>SET_IS_ERASING\<close>.
\<close>

theorem operation_error_is_cleared:
  "dispatched (program connectedState connectedRefs [ESPFile ''firmware'' 4096 None]
                 (engineFails ''Failed to write to target RAM'')) =
     [SET_IS_FLASHING True, SET_ERROR None,
      SET_ERROR (Some (ErrorString ''Failed to write to target RAM'')),
      SET_IS_FLASHING False, SET_FLASH_PROGRESS None] \<and>
   error (finalState connectedState
            (program connectedState connectedRefs [ESPFile ''firmware'' 4096 None]
               (engineFails ''Failed to write to target RAM''))) = None \<and>
   dispatched (eraseFlash connectedState connectedRefs (engineFails ''Timeout'')) =
     [SET_IS_ERASING True, SET_ERROR None, SET_ERROR (Some (ErrorString ''Timeout'')),
      SET_IS_ERASING False] \<and>
   error (finalState connectedState
            (eraseFlash connectedState connectedRefs (engineFails ''Timeout''))) = None"
  by (simp add: program_def eraseFlash_def finalState_def engineFails_def connectedRefs_def
        connectedState_def initialRefs_def orElse_def)

text \<open>
  The same for every call: the error after \<open>program\<close> or \<open>eraseFlash\<close> is the
  not-connected message or nothing, never the failure of the engine.
\<close>

lemma operations_end_without_error:
  "error (finalState cur (program state refs files engine)) =
     (if esploaderInstance refs = None \<or> \<not> isConnected state
      then Some (ErrorString notConnectedMessage) else None)"
  "error (finalState cur (eraseFlash state refs engine')) =
     (if esploaderInstance refs = None \<or> \<not> isConnected state
      then Some (ErrorString notConnectedMessage) else None)"
  by (auto simp: program_def eraseFlash_def finalState_def Let_def split: option.splits Outcome.splits)

subsection \<open>disconnect\<close>

text \<open>
  Claim C10.  A \<open>disconnect\<close> that meets no exception (there is no transport, or its
  \<open>disconnect()\<close> returns) dispatches \<open>RESET_STATE\<close>: afterwards the terminal is empty and
  the chip is \<open>null\<close>, while the six configuration fields keep their values.
\<close>

theorem successful_disconnect_clears_terminal:
  assumes "programTransport refs = None \<or> transportDisconnect env = Returns ()"
  shows
    "RESET_STATE \<in> set (dispatched (fst (disconnect refs env))) \<and>
     terminalOutput (finalState cur (fst (disconnect refs env))) = [] \<and>
     chip (finalState cur (fst (disconnect refs env))) = None \<and>
     baudrate (finalState cur (fst (disconnect refs env))) = baudrate cur \<and>
     consoleBaudrate (finalState cur (fst (disconnect refs env))) = consoleBaudrate cur \<and>
     consoleDataBits (finalState cur (fst (disconnect refs env))) = consoleDataBits cur \<and>
     consoleStopBits (finalState cur (fst (disconnect refs env))) = consoleStopBits cur \<and>
     consoleParity (finalState cur (fst (disconnect refs env))) = consoleParity cur \<and>
     debugLogging (finalState cur (fst (disconnect refs env))) = debugLogging cur"
  using assms
  by (auto simp: disconnect_def finalState_def Let_def initialESPLoaderState_def split: option.splits Outcome.splits)

text \<open>Disconnecting the example session empties its terminal.\<close>

theorem successful_disconnect_clears_terminal_witness:
  "transportDisconnect quietDisconnect = Returns () \<and>
   terminalOutput connectedState = [''Connecting...''] \<and>
   terminalOutput (finalState connectedState (fst (disconnect connectedRefs quietDisconnect))) = [] \<and>
   chip (finalState connectedState (fst (disconnect connectedRefs quietDisconnect))) = None \<and>
   baudrate (finalState connectedState (fst (disconnect connectedRefs quietDisconnect))) = 115200"
  using successful_disconnect_clears_terminal [of connectedRefs quietDisconnect connectedState]
  by (simp add: quietDisconnect_def connectedState_def initialESPLoaderState_def)

text \<open>
  Claim C8, as amended.  After every \<open>disconnect\<close>, whether or not the transport's
  \<open>disconnect()\<close> or the port's \<open>close()\<close> throws, \<open>isConnected\<close> and \<open>isLoading\<close> are
  false and \<open>esploader\<close>, \<open>transport\<close> and \<open>chip\<close> are \<open>null\<close>.  When the transport's
  \<open>disconnect()\<close> does not throw, an exception of the port's \<open>close()\<close> is swallowed: the
  call ends as a successful disconnect, with no error and the three references cleared.
\<close>

theorem disconnect_ends_disconnected:
  "isConnected (finalState cur (fst (disconnect refs env))) = False \<and>
   esploader (finalState cur (fst (disconnect refs env))) = None \<and>
   transport (finalState cur (fst (disconnect refs env))) = None \<and>
   chip (finalState cur (fst (disconnect refs env))) = None \<and>
   isLoading (finalState cur (fst (disconnect refs env))) = False \<and>
   (programTransport refs = None \<or> transportDisconnect env = Returns () \<longrightarrow>
      error (finalState cur (fst (disconnect refs env))) = None \<and>
      snd (disconnect refs env) =
        refs\<lparr>programDevice := None, programTransport := None, esploaderInstance := None\<rparr>)"
  by (auto simp: disconnect_def finalState_def Let_def initialESPLoaderState_def
           split: option.splits Outcome.splits)

text \<open>The example session, disconnected through a port whose \<open>close()\<close> throws.\<close>

theorem disconnect_ends_disconnected_witness:
  "transportDisconnect closeFails = Returns () \<and>
   deviceClose closeFails = Throws (JsError (Some ''close failed'')) \<and>
   isConnected (finalState connectedState (fst (disconnect connectedRefs closeFails))) = False \<and>
   isLoading (finalState connectedState (fst (disconnect connectedRefs closeFails))) = False \<and>
   error (finalState connectedState (fst (disconnect connectedRefs closeFails))) = None \<and>
   snd (disconnect connectedRefs closeFails) = initialRefs"
  using disconnect_ends_disconnected [of connectedState connectedRefs closeFails]
  by (simp add: closeFails_def connectedRefs_def initialRefs_def)

text \<open>
  Claim C8 as stated fails there: \<open>close()\<close> was called and threw \<open>close failed\<close>, and the
  final error is not that message.
\<close>

theorem close_exception_not_surfaced:
  "programTransport connectedRefs = Some (Transport (SerialPort 1) False) \<and>
   programDevice connectedRefs = Some (SerialPort 1) \<and>
   deviceReadable closeFails = True \<and>
   deviceClose closeFails = Throws (JsError (Some ''close failed'')) \<and>
   Call (PortClose (SerialPort 1)) \<in> set (fst (disconnect connectedRefs closeFails)) \<and>
   error (finalState connectedState (fst (disconnect connectedRefs closeFails))) \<noteq>
     Some (ErrorString ''close failed'') \<and>
   error (finalState connectedState (fst (disconnect connectedRefs closeFails))) \<noteq>
     Some (ErrorObject (JsError (Some ''close failed'')))"
  by (simp add: disconnect_def finalState_def closeFails_def connectedRefs_def initialRefs_def
        tryIgnore_def Let_def initialESPLoaderState_def)

text \<open>
  What the transport's \<open>disconnect()\<close> throws is dispatched as error and then reset by the
  \<open>SET_IS_CONNECTED\<close> of the \<open>finally\<close> block: the error after \<open>disconnect\<close> is always
  \<open>null\<close>.
\<close>

lemma disconnect_ends_without_error:
  "error (finalState cur (fst (disconnect refs env))) = None"
  by (auto simp: disconnect_def finalState_def Let_def split: option.splits Outcome.splits)

end
